theory Spec2Isabelle
  imports Complex_Main "HOL-Library.Word"
begin

section \<open>The upper half of the power LED driver (drivers/power/powerled.c)\<close>

text \<open>
  The file holds three file operations, \<open>powerled_open\<close>, \<open>powerled_close\<close> and
  \<open>powerled_ioctl\<close>, and the public \<open>powerled_register\<close>. Each is embedded as a
  function from the device before the call to the returned status and the device after it.
  One call runs on its own: what other threads do between two calls is not modelled.
\<close>

subsection \<open>Machine types and status codes\<close>

type_synonym uint8_t = "8 word"

text \<open>\<open>unsigned long\<close>, the type of the ioctl argument: 32 bits on the ESP32.\<close>

type_synonym ulong = "32 word"

text \<open>
  Modelled from the spec: the status codes of the headers \<open>sys/types.h\<close> and
  \<open>errno.h\<close>, which are not among the sources. \<open>OK\<close> is success; \<open>EPERM\<close> is the
  permission-denied condition and \<open>EMFILE\<close> the too-many-openers condition, with their
  POSIX numbers. A status is a C \<open>int\<close>; the code only copies, compares and negates these
  small values, so no operation on them can overflow and they are modelled as \<open>int\<close>.
\<close>

definition OK :: int where
  "OK = 0"

definition EPERM :: int where
  "EPERM = 1"

definition EMFILE :: int where
  "EMFILE = 24"

subsection \<open>The structures of nuttx/power/powerled.h\<close>

text \<open>
  Modelled from the spec: the structure declarations of \<open>nuttx/power/powerled.h\<close>, which
  is not among the sources. The records hold the fields that \<open>powerled.c\<close> reads or
  writes. The two \<open>lock\<close> members are named \<open>limits_lock\<close> and \<open>params_lock\<close>, a record
  field being a global name. The brightness, the frequency and the duty are C \<open>float\<close>s;
  the current limit, which the spec calls numeric and the source compares with 0, is
  taken as a \<open>float\<close> too.
\<close>

text \<open>
  A C \<open>float\<close>: a number, an infinity, or NaN. The numbers of the model are all the reals,
  which include every finite value a \<open>float\<close> can hold. The source does no arithmetic on
  these members: it only compares them with the constants 0 and 100, and such a
  comparison is exact. \<open>float_lt x c\<close>, \<open>float_le x c\<close> and \<open>float_gt x c\<close> are the C
  comparisons \<open>x < c\<close>, \<open>x <= c\<close> and \<open>x > c\<close>: every comparison with NaN is false.
\<close>

datatype c_float = Finite real | PlusInf | MinusInf | NaN

fun float_lt :: "c_float \<Rightarrow> real \<Rightarrow> bool" where
  "float_lt (Finite x) c = (x < c)"
| "float_lt PlusInf c = False"
| "float_lt MinusInf c = True"
| "float_lt NaN c = False"

fun float_le :: "c_float \<Rightarrow> real \<Rightarrow> bool" where
  "float_le (Finite x) c = (x \<le> c)"
| "float_le PlusInf c = False"
| "float_le MinusInf c = True"
| "float_le NaN c = False"

fun float_gt :: "c_float \<Rightarrow> real \<Rightarrow> bool" where
  "float_gt (Finite x) c = (x > c)"
| "float_gt PlusInf c = True"
| "float_gt MinusInf c = False"
| "float_gt NaN c = False"

record powerled_limits_s =
  limits_lock :: bool
  limits_current :: c_float

record powerled_params_s =
  params_lock :: bool
  brightness :: c_float
  frequency :: c_float
  duty :: c_float

record powerled_s =
  opmode :: uint8_t
  limits :: powerled_limits_s
  param :: powerled_params_s

text \<open>
  Modelled from the spec: the constants of \<open>nuttx/power/powerled.h\<close> that the dispatcher
  compares with, namely the nine command identifiers of the \<open>switch\<close> and the two
  operation modes that START accepts. Their numbers are not in the sources, so they are
  a parameter of the dispatcher.
\<close>

record powerled_h =
  PWRIOC_START :: int
  PWRIOC_STOP :: int
  PWRIOC_SET_MODE :: int
  PWRIOC_SET_LIMITS :: int
  PWRIOC_GET_STATE :: int
  PWRIOC_SET_FAULT :: int
  PWRIOC_GET_FAULT :: int
  PWRIOC_CLEAN_FAULT :: int
  PWRIOC_SET_PARAMS :: int
  POWERLED_OPMODE_CONTINUOUS :: uint8_t
  POWERLED_OPMODE_FLASH :: uint8_t

text \<open>The case labels of a C \<open>switch\<close> are pairwise different.\<close>

definition recognized :: "powerled_h \<Rightarrow> int list" where
  "recognized K =
     [PWRIOC_START K, PWRIOC_STOP K, PWRIOC_SET_MODE K, PWRIOC_SET_LIMITS K,
      PWRIOC_GET_STATE K, PWRIOC_SET_FAULT K, PWRIOC_GET_FAULT K,
      PWRIOC_CLEAN_FAULT K, PWRIOC_SET_PARAMS K]"

definition labels_ok :: "powerled_h \<Rightarrow> bool" where
  "labels_ok K = distinct (recognized K)"

subsection \<open>The lower half\<close>

text \<open>
  What a lower-half operation can read and write: the structure behind \<open>dev->priv\<close>,
  the lower-level interface behind \<open>dev->lower\<close> (opaque, with the hardware), and the
  caller's memory, of which the model keeps the parameter structures that
  \<open>PWRIOC_SET_PARAMS\<close> reads through its argument. Memory is flat: every address holds
  some structure.
\<close>

record 'h lower_state =
  priv :: powerled_s
  lower :: 'h
  params_mem :: "ulong \<Rightarrow> powerled_params_s"

text \<open>
  The operations table \<open>struct powerled_ops_s\<close>. An operation receives \<open>dev\<close> in C; in the
  model it receives the part of the device that belongs to the lower half and returns
  its status with that part updated, so it cannot change the open count or the
  semaphore of the upper half. A pointer argument is passed as its address. The fields
  carry the prefix \<open>ops_\<close>. Every field is a function, so the table is complete, as the
  assertions of \<open>powerled_register\<close> demand.
\<close>

record 'h powerled_ops_s =
  ops_setup :: "'h lower_state \<Rightarrow> int \<times> 'h lower_state"
  ops_shutdown :: "'h lower_state \<Rightarrow> int \<times> 'h lower_state"
  ops_stop :: "'h lower_state \<Rightarrow> int \<times> 'h lower_state"
  ops_start :: "'h lower_state \<Rightarrow> int \<times> 'h lower_state"
  ops_params_set :: "ulong \<Rightarrow> 'h lower_state \<Rightarrow> int \<times> 'h lower_state"
  ops_mode_set :: "uint8_t \<Rightarrow> 'h lower_state \<Rightarrow> int \<times> 'h lower_state"
  ops_limits_set :: "ulong \<Rightarrow> 'h lower_state \<Rightarrow> int \<times> 'h lower_state"
  ops_fault_set :: "uint8_t \<Rightarrow> 'h lower_state \<Rightarrow> int \<times> 'h lower_state"
  ops_state_get :: "ulong \<Rightarrow> 'h lower_state \<Rightarrow> int \<times> 'h lower_state"
  ops_fault_get :: "ulong \<Rightarrow> 'h lower_state \<Rightarrow> int \<times> 'h lower_state"
  ops_fault_clean :: "uint8_t \<Rightarrow> 'h lower_state \<Rightarrow> int \<times> 'h lower_state"
  ops_ioctl :: "int \<Rightarrow> ulong \<Rightarrow> 'h lower_state \<Rightarrow> int \<times> 'h lower_state"

text \<open>The calls made into the lower half, with their arguments, in the order made.\<close>

datatype lh_call =
    SETUP
  | SHUTDOWN
  | START
  | STOP
  | MODE_SET uint8_t
  | LIMITS_SET ulong
  | STATE_GET ulong
  | FAULT_SET uint8_t
  | FAULT_GET ulong
  | FAULT_CLEAN uint8_t
  | PARAMS_SET ulong
  | IOCTL int ulong

subsection \<open>The semaphore\<close>

text \<open>
  Modelled from the spec: the semaphore functions \<open>nxsem_init\<close>, \<open>sem_wait\<close>,
  \<open>sem_post\<close> and \<open>sem_destroy\<close> of the operating system, which are not among the
  sources. A semaphore is uninitialised, live with a count, or destroyed. Whether a wait
  returns \<open>OK\<close> or fails with an \<open>errno\<close> (an interrupted wait) is decided outside the
  driver, so it is an input of each call: \<open>WAIT_OK\<close>, or \<open>WAIT_ERROR errno\<close>.
\<close>

datatype sem_t = SEM_UNINIT | SEM int | SEM_DESTROYED

datatype wait_result = WAIT_OK | WAIT_ERROR int

definition nxsem_init :: "int \<Rightarrow> int \<Rightarrow> sem_t" where
  "nxsem_init pshared val = SEM val"

fun sem_take :: "sem_t \<Rightarrow> sem_t" where
  "sem_take (SEM n) = SEM (n - 1)"
| "sem_take s = s"

fun sem_wait :: "wait_result \<Rightarrow> sem_t \<Rightarrow> int + sem_t" where
  "sem_wait WAIT_OK s = Inr (sem_take s)"
| "sem_wait (WAIT_ERROR errno) s = Inl errno"

fun sem_post :: "sem_t \<Rightarrow> sem_t" where
  "sem_post (SEM n) = SEM (n + 1)"
| "sem_post s = s"

definition sem_destroy :: "sem_t \<Rightarrow> sem_t" where
  "sem_destroy s = SEM_DESTROYED"

subsection \<open>The device\<close>

text \<open>
  \<open>struct powerled_dev_s\<close>: the open count, the semaphore, and in \<open>lh\<close> the members
  \<open>priv\<close> and \<open>lower\<close> together with what else the lower half can reach. The table
  \<open>dev->ops\<close> is constant and is passed beside the device. \<open>calls\<close> is not a member of
  the C structure: it records the calls made into the lower half.
\<close>

record 'h powerled_dev_s =
  ocount :: uint8_t
  closesem :: sem_t
  lh :: "'h lower_state"
  calls :: "lh_call list"

text \<open>
  \<open>ret = dev->ops->f(dev, ...)\<close>: the operation runs on the lower half's part of the
  device and the call is recorded.
\<close>

definition call_lower ::
  "('h lower_state \<Rightarrow> int \<times> 'h lower_state) \<Rightarrow> lh_call \<Rightarrow> 'h powerled_dev_s
     \<Rightarrow> int \<times> 'h powerled_dev_s" where
  "call_lower f c dev =
     (let (ret, l) = f (lh dev)
      in (ret, dev\<lparr>lh := l, calls := calls dev @ [c]\<rparr>))"

subsection \<open>powerled_open\<close>

text \<open>
  Lines 107 to 147: the value of the local variable \<open>ret\<close> and the device when the
  \<open>return\<close> statement is reached. The critical section around the call of \<open>setup\<close> has
  no effect on one call running alone. The new count \<open>tmp\<close> is stored on one path only:
  where \<open>tmp\<close> is 1 and \<open>setup\<close> returned \<open>OK\<close>.
\<close>

definition powerled_open_ret ::
  "'h powerled_ops_s \<Rightarrow> wait_result \<Rightarrow> 'h powerled_dev_s \<Rightarrow> int \<times> 'h powerled_dev_s" where
  "powerled_open_ret ops w dev =
     (case sem_wait w (closesem dev) of
        Inl errno \<Rightarrow> (- errno, dev)
      | Inr sem \<Rightarrow>
          (let dev = dev\<lparr>closesem := sem\<rparr>;
               tmp = ocount dev + 1;
               (ret, dev) =
                 (if tmp = 0 then (- EMFILE, dev)
                  else if tmp = 1 then
                    (let (ret, dev) = call_lower (ops_setup ops) SETUP dev
                     in if ret = OK then (ret, dev\<lparr>ocount := tmp\<rparr>) else (ret, dev))
                  else (OK, dev))
           in (ret, dev\<lparr>closesem := sem_post (closesem dev)\<rparr>)))"

text \<open>Line 149: the function ends with \<open>return OK\<close>, not with \<open>return ret\<close>.\<close>

definition powerled_open ::
  "'h powerled_ops_s \<Rightarrow> wait_result \<Rightarrow> 'h powerled_dev_s \<Rightarrow> int \<times> 'h powerled_dev_s" where
  "powerled_open ops w dev = (let (ret, dev) = powerled_open_ret ops w dev in (OK, dev))"

subsection \<open>powerled_close\<close>

text \<open>The status of \<open>shutdown\<close> is not looked at. The function ends with \<open>return ret\<close>.\<close>

definition powerled_close ::
  "'h powerled_ops_s \<Rightarrow> wait_result \<Rightarrow> 'h powerled_dev_s \<Rightarrow> int \<times> 'h powerled_dev_s" where
  "powerled_close ops w dev =
     (case sem_wait w (closesem dev) of
        Inl errno \<Rightarrow> (- errno, dev)
      | Inr sem \<Rightarrow>
          (let dev = dev\<lparr>closesem := sem\<rparr>
           in if ocount dev > 1 then
                (let dev = dev\<lparr>ocount := ocount dev - 1\<rparr>
                 in (OK, dev\<lparr>closesem := sem_post (closesem dev)\<rparr>))
              else
                (let dev = dev\<lparr>ocount := 0\<rparr>;
                     (_, dev) = call_lower (ops_shutdown ops) SHUTDOWN dev
                 in (OK, dev\<lparr>closesem := sem_post (closesem dev)\<rparr>))))"

subsection \<open>powerled_ioctl\<close>

text \<open>
  The \<open>switch\<close> on \<open>cmd\<close>, case by case in the order of the source. \<open>goto errout\<close>
  returns \<open>ret\<close> with the device as it is. The casts \<open>(uint8_t)arg\<close> keep the low byte.
\<close>

definition powerled_ioctl ::
  "powerled_h \<Rightarrow> 'h powerled_ops_s \<Rightarrow> int \<Rightarrow> ulong \<Rightarrow> 'h powerled_dev_s
     \<Rightarrow> int \<times> 'h powerled_dev_s" where
  "powerled_ioctl K ops cmd arg dev =
     (let powerled = priv (lh dev)
      in if cmd = PWRIOC_START K then
           (if limits_lock (limits powerled) = False \<or>
               float_le (limits_current (limits powerled)) 0
            then (- EPERM, dev)
            else if opmode powerled \<noteq> POWERLED_OPMODE_CONTINUOUS K \<and>
                    opmode powerled \<noteq> POWERLED_OPMODE_FLASH K
            then (- EPERM, dev)
            else call_lower (ops_start ops) START dev)
         else if cmd = PWRIOC_STOP K then
           call_lower (ops_stop ops) STOP dev
         else if cmd = PWRIOC_SET_MODE K then
           (let mode = (ucast arg :: uint8_t)
            in call_lower (ops_mode_set ops mode) (MODE_SET mode) dev)
         else if cmd = PWRIOC_SET_LIMITS K then
           (if limits_lock (limits powerled) = True then (- EPERM, dev)
            else call_lower (ops_limits_set ops arg) (LIMITS_SET arg) dev)
         else if cmd = PWRIOC_GET_STATE K then
           call_lower (ops_state_get ops arg) (STATE_GET arg) dev
         else if cmd = PWRIOC_SET_FAULT K then
           (let fault = (ucast arg :: uint8_t)
            in call_lower (ops_fault_set ops fault) (FAULT_SET fault) dev)
         else if cmd = PWRIOC_GET_FAULT K then
           call_lower (ops_fault_get ops arg) (FAULT_GET arg) dev
         else if cmd = PWRIOC_CLEAN_FAULT K then
           (let fault = (ucast arg :: uint8_t)
            in call_lower (ops_fault_clean ops fault) (FAULT_CLEAN fault) dev)
         else if cmd = PWRIOC_SET_PARAMS K then
           (let params = params_mem (lh dev) arg
            in if params_lock (param powerled) = True then (- EPERM, dev)
               else if float_lt (brightness params) 0 \<or> float_gt (brightness params) 100 \<or>
                       float_lt (frequency params) 0 \<or> float_lt (duty params) 0 \<or>
                       float_gt (duty params) 100
               then (- EPERM, dev)
               else call_lower (ops_params_set ops arg) (PARAMS_SET arg) dev)
         else
           call_lower (ops_ioctl ops cmd arg) (IOCTL cmd arg) dev)"

subsection \<open>powerled_register\<close>

text \<open>
  The assertions hold by the types: the path, the device and the lower-level interface
  are given, and the table has all its operations. The status of \<open>register_driver\<close>,
  which belongs to the file system, is an input.
\<close>

definition powerled_register ::
  "int \<Rightarrow> string \<Rightarrow> 'h powerled_dev_s \<Rightarrow> 'h \<Rightarrow> int \<times> 'h powerled_dev_s" where
  "powerled_register register_driver path dev lower_arg =
     (let dev = dev\<lparr>ocount := 0\<rparr>;
          dev = dev\<lparr>closesem := nxsem_init 0 1\<rparr>;
          dev = dev\<lparr>lh := (lh dev)\<lparr>lower := lower_arg\<rparr>\<rparr>;
          ret = register_driver
      in if ret < 0 then (ret, dev\<lparr>closesem := sem_destroy (closesem dev)\<rparr>)
         else (ret, dev))"

subsection \<open>The dispatcher as the spec tabulates it\<close>

text \<open>
  The meaning of a recorded call: the operation of the table that it stands for.
\<close>

fun run_call :: "'h powerled_ops_s \<Rightarrow> lh_call \<Rightarrow> 'h lower_state \<Rightarrow> int \<times> 'h lower_state" where
  "run_call ops SETUP = ops_setup ops"
| "run_call ops SHUTDOWN = ops_shutdown ops"
| "run_call ops START = ops_start ops"
| "run_call ops STOP = ops_stop ops"
| "run_call ops (MODE_SET mode) = ops_mode_set ops mode"
| "run_call ops (LIMITS_SET p) = ops_limits_set ops p"
| "run_call ops (STATE_GET p) = ops_state_get ops p"
| "run_call ops (FAULT_SET fault) = ops_fault_set ops fault"
| "run_call ops (FAULT_GET p) = ops_fault_get ops p"
| "run_call ops (FAULT_CLEAN fault) = ops_fault_clean ops fault"
| "run_call ops (PARAMS_SET p) = ops_params_set ops p"
| "run_call ops (IOCTL cmd arg) = ops_ioctl ops cmd arg"

text \<open>
  The two definitions after the next two follow the words of the spec, not the source,
  and are compared with \<open>powerled_ioctl\<close> further down. \<open>precondition_violated\<close> is
  the column "Precondition checked here" of the dispatcher's table, negated: START wants
  the limits locked, a current above 0 and the mode CONTINUOUS or FLASH; SET_LIMITS wants
  the limits unlocked; SET_PARAMS wants the parameters unlocked, brightness and duty in
  [0,100] and a frequency of at least 0. A value is in [0,100], or at least 0, when it is
  a number or an infinity that is so: NaN is in no interval and is at least nothing.
  \<open>spec_delegate\<close> is the column "Delegates to".
\<close>

fun float_in :: "c_float \<Rightarrow> real \<Rightarrow> real \<Rightarrow> bool" where
  "float_in (Finite x) lo hi = (lo \<le> x \<and> x \<le> hi)"
| "float_in PlusInf lo hi = False"
| "float_in MinusInf lo hi = False"
| "float_in NaN lo hi = False"

fun float_ge :: "c_float \<Rightarrow> real \<Rightarrow> bool" where
  "float_ge (Finite x) c = (x \<ge> c)"
| "float_ge PlusInf c = True"
| "float_ge MinusInf c = False"
| "float_ge NaN c = False"

definition precondition_violated ::
  "powerled_h \<Rightarrow> int \<Rightarrow> ulong \<Rightarrow> 'h powerled_dev_s \<Rightarrow> bool" where
  "precondition_violated K cmd arg dev =
     (let powerled = priv (lh dev); params = params_mem (lh dev) arg
      in (cmd = PWRIOC_START K \<and>
            (limits_lock (limits powerled) = False \<or>
             \<not> float_gt (limits_current (limits powerled)) 0 \<or>
             opmode powerled \<notin> {POWERLED_OPMODE_CONTINUOUS K, POWERLED_OPMODE_FLASH K})) \<or>
         (cmd = PWRIOC_SET_LIMITS K \<and> limits_lock (limits powerled) = True) \<or>
         (cmd = PWRIOC_SET_PARAMS K \<and>
            (params_lock (param powerled) = True \<or> \<not> float_in (brightness params) 0 100 \<or>
             \<not> float_ge (frequency params) 0 \<or> \<not> float_in (duty params) 0 100)))"

text \<open>
  What the dispatcher itself turns down, read off the tests of the source (lines 220,
  232, 278, 350 and 358), and the commands for which one of the floats that these tests
  read is NaN.
\<close>

definition dispatcher_rejects ::
  "powerled_h \<Rightarrow> int \<Rightarrow> ulong \<Rightarrow> 'h powerled_dev_s \<Rightarrow> bool" where
  "dispatcher_rejects K cmd arg dev =
     (let powerled = priv (lh dev); params = params_mem (lh dev) arg
      in (cmd = PWRIOC_START K \<and>
            (limits_lock (limits powerled) = False \<or>
             float_le (limits_current (limits powerled)) 0 \<or>
             (opmode powerled \<noteq> POWERLED_OPMODE_CONTINUOUS K \<and>
              opmode powerled \<noteq> POWERLED_OPMODE_FLASH K))) \<or>
         (cmd = PWRIOC_SET_LIMITS K \<and> limits_lock (limits powerled) = True) \<or>
         (cmd = PWRIOC_SET_PARAMS K \<and>
            (params_lock (param powerled) = True \<or>
             float_lt (brightness params) 0 \<or> float_gt (brightness params) 100 \<or>
             float_lt (frequency params) 0 \<or>
             float_lt (duty params) 0 \<or> float_gt (duty params) 100)))"

definition reads_nan ::
  "powerled_h \<Rightarrow> int \<Rightarrow> ulong \<Rightarrow> 'h powerled_dev_s \<Rightarrow> bool" where
  "reads_nan K cmd arg dev =
     (let powerled = priv (lh dev); params = params_mem (lh dev) arg
      in (cmd = PWRIOC_START K \<and> limits_current (limits powerled) = NaN) \<or>
         (cmd = PWRIOC_SET_PARAMS K \<and>
            (brightness params = NaN \<or> frequency params = NaN \<or> duty params = NaN)))"

definition spec_delegate :: "powerled_h \<Rightarrow> int \<Rightarrow> ulong \<Rightarrow> lh_call" where
  "spec_delegate K cmd arg =
     (if cmd = PWRIOC_START K then START
      else if cmd = PWRIOC_STOP K then STOP
      else if cmd = PWRIOC_SET_MODE K then MODE_SET (ucast arg)
      else if cmd = PWRIOC_SET_LIMITS K then LIMITS_SET arg
      else if cmd = PWRIOC_GET_STATE K then STATE_GET arg
      else if cmd = PWRIOC_SET_FAULT K then FAULT_SET (ucast arg)
      else if cmd = PWRIOC_GET_FAULT K then FAULT_GET arg
      else if cmd = PWRIOC_CLEAN_FAULT K then FAULT_CLEAN (ucast arg)
      else if cmd = PWRIOC_SET_PARAMS K then PARAMS_SET arg
      else IOCTL cmd arg)"

subsection \<open>Concrete inputs\<close>

text \<open>
  Inputs on which the theorems are run. \<open>example_h\<close> numbers the commands 1 to 9 and
  the two modes 1 and 2. Every operation of \<open>stub_ops r\<close> returns the status \<open>r\<close> and
  changes nothing. \<open>fresh_dev\<close> is a device as registration leaves it, its control block
  zeroed. \<open>armed_dev\<close> is open once, its limits set and locked, in continuous mode; the
  caller's memory holds a parameter structure with brightness 101 at address 0 and one
  with brightness 50, frequency 1000 and duty 50 everywhere else. \<open>nan_dev\<close> is
  \<open>armed_dev\<close> with NaN as its current limit and, in the caller's memory, NaN as the
  brightness beside frequency 1000 and duty 50.
\<close>

definition example_h :: powerled_h where
  "example_h =
     \<lparr>PWRIOC_START = 1, PWRIOC_STOP = 2, PWRIOC_SET_MODE = 3, PWRIOC_SET_LIMITS = 4,
      PWRIOC_GET_STATE = 5, PWRIOC_SET_FAULT = 6, PWRIOC_GET_FAULT = 7,
      PWRIOC_CLEAN_FAULT = 8, PWRIOC_SET_PARAMS = 9,
      POWERLED_OPMODE_CONTINUOUS = 1, POWERLED_OPMODE_FLASH = 2\<rparr>"

definition stub_ops :: "int \<Rightarrow> unit powerled_ops_s" where
  "stub_ops r =
     \<lparr>ops_setup = (\<lambda>l. (r, l)), ops_shutdown = (\<lambda>l. (r, l)), ops_stop = (\<lambda>l. (r, l)),
      ops_start = (\<lambda>l. (r, l)), ops_params_set = (\<lambda>p l. (r, l)),
      ops_mode_set = (\<lambda>m l. (r, l)), ops_limits_set = (\<lambda>p l. (r, l)),
      ops_fault_set = (\<lambda>f l. (r, l)), ops_state_get = (\<lambda>p l. (r, l)),
      ops_fault_get = (\<lambda>p l. (r, l)), ops_fault_clean = (\<lambda>f l. (r, l)),
      ops_ioctl = (\<lambda>c a l. (r, l))\<rparr>"

definition zero_params :: powerled_params_s where
  "zero_params =
     \<lparr>params_lock = False, brightness = Finite 0, frequency = Finite 0, duty = Finite 0\<rparr>"

definition fresh_dev :: "unit powerled_dev_s" where
  "fresh_dev =
     \<lparr>ocount = 0, closesem = SEM 1,
      lh = \<lparr>priv = \<lparr>opmode = 0, limits = \<lparr>limits_lock = False, limits_current = Finite 0\<rparr>,
                    param = zero_params\<rparr>,
            lower = (), params_mem = (\<lambda>a. zero_params)\<rparr>,
      calls = []\<rparr>"

definition armed_dev :: "unit powerled_dev_s" where
  "armed_dev =
     \<lparr>ocount = 1, closesem = SEM 1,
      lh = \<lparr>priv = \<lparr>opmode = 1, limits = \<lparr>limits_lock = True, limits_current = Finite 1\<rparr>,
                    param = zero_params\<rparr>,
            lower = (),
            params_mem = (\<lambda>a. if a = 0 then zero_params\<lparr>brightness := Finite 101\<rparr>
                               else \<lparr>params_lock = False, brightness = Finite 50,
                                     frequency = Finite 1000, duty = Finite 50\<rparr>)\<rparr>,
      calls = []\<rparr>"

definition nan_dev :: "unit powerled_dev_s" where
  "nan_dev =
     \<lparr>ocount = 1, closesem = SEM 1,
      lh = \<lparr>priv = \<lparr>opmode = 1, limits = \<lparr>limits_lock = True, limits_current = NaN\<rparr>,
                    param = zero_params\<rparr>,
            lower = (),
            params_mem = (\<lambda>a. \<lparr>params_lock = False, brightness = NaN,
                                 frequency = Finite 1000, duty = Finite 50\<rparr>)\<rparr>,
      calls = []\<rparr>"

section \<open>Basic facts\<close>

lemma call_lower_eq:
  "call_lower f c dev = (fst (f (lh dev)), dev\<lparr>lh := snd (f (lh dev)), calls := calls dev @ [c]\<rparr>)"
  by (simp add: call_lower_def split: prod.splits)

text \<open>The tests of the source in the words of the spec: NaN is the one difference.\<close>

lemma float_le_iff: "float_le x c \<longleftrightarrow> \<not> float_gt x c \<and> x \<noteq> NaN"
  by (cases x) auto

lemma float_lt_iff: "float_lt x c \<longleftrightarrow> \<not> float_ge x c \<and> x \<noteq> NaN"
  by (cases x) auto

lemma float_outside_iff:
  "float_lt x lo \<or> float_gt x hi \<longleftrightarrow> \<not> float_in x lo hi \<and> x \<noteq> NaN"
  by (cases x) auto

lemma labels_ok_example_h: "labels_ok example_h"
  by (simp add: labels_ok_def recognized_def example_h_def)

lemma labels_okD:
  assumes "labels_ok K"
  shows
    "PWRIOC_START K \<noteq> PWRIOC_STOP K" "PWRIOC_START K \<noteq> PWRIOC_SET_MODE K"
    "PWRIOC_START K \<noteq> PWRIOC_SET_LIMITS K" "PWRIOC_START K \<noteq> PWRIOC_GET_STATE K"
    "PWRIOC_START K \<noteq> PWRIOC_SET_FAULT K" "PWRIOC_START K \<noteq> PWRIOC_GET_FAULT K"
    "PWRIOC_START K \<noteq> PWRIOC_CLEAN_FAULT K" "PWRIOC_START K \<noteq> PWRIOC_SET_PARAMS K"
    "PWRIOC_STOP K \<noteq> PWRIOC_START K" "PWRIOC_STOP K \<noteq> PWRIOC_SET_MODE K"
    "PWRIOC_STOP K \<noteq> PWRIOC_SET_LIMITS K" "PWRIOC_STOP K \<noteq> PWRIOC_GET_STATE K"
    "PWRIOC_STOP K \<noteq> PWRIOC_SET_FAULT K" "PWRIOC_STOP K \<noteq> PWRIOC_GET_FAULT K"
    "PWRIOC_STOP K \<noteq> PWRIOC_CLEAN_FAULT K" "PWRIOC_STOP K \<noteq> PWRIOC_SET_PARAMS K"
    "PWRIOC_SET_MODE K \<noteq> PWRIOC_START K" "PWRIOC_SET_MODE K \<noteq> PWRIOC_STOP K"
    "PWRIOC_SET_MODE K \<noteq> PWRIOC_SET_LIMITS K" "PWRIOC_SET_MODE K \<noteq> PWRIOC_GET_STATE K"
    "PWRIOC_SET_MODE K \<noteq> PWRIOC_SET_FAULT K" "PWRIOC_SET_MODE K \<noteq> PWRIOC_GET_FAULT K"
    "PWRIOC_SET_MODE K \<noteq> PWRIOC_CLEAN_FAULT K" "PWRIOC_SET_MODE K \<noteq> PWRIOC_SET_PARAMS K"
    "PWRIOC_SET_LIMITS K \<noteq> PWRIOC_START K" "PWRIOC_SET_LIMITS K \<noteq> PWRIOC_STOP K"
    "PWRIOC_SET_LIMITS K \<noteq> PWRIOC_SET_MODE K" "PWRIOC_SET_LIMITS K \<noteq> PWRIOC_GET_STATE K"
    "PWRIOC_SET_LIMITS K \<noteq> PWRIOC_SET_FAULT K" "PWRIOC_SET_LIMITS K \<noteq> PWRIOC_GET_FAULT K"
    "PWRIOC_SET_LIMITS K \<noteq> PWRIOC_CLEAN_FAULT K" "PWRIOC_SET_LIMITS K \<noteq> PWRIOC_SET_PARAMS K"
    "PWRIOC_GET_STATE K \<noteq> PWRIOC_START K" "PWRIOC_GET_STATE K \<noteq> PWRIOC_STOP K"
    "PWRIOC_GET_STATE K \<noteq> PWRIOC_SET_MODE K" "PWRIOC_GET_STATE K \<noteq> PWRIOC_SET_LIMITS K"
    "PWRIOC_GET_STATE K \<noteq> PWRIOC_SET_FAULT K" "PWRIOC_GET_STATE K \<noteq> PWRIOC_GET_FAULT K"
    "PWRIOC_GET_STATE K \<noteq> PWRIOC_CLEAN_FAULT K" "PWRIOC_GET_STATE K \<noteq> PWRIOC_SET_PARAMS K"
    "PWRIOC_SET_FAULT K \<noteq> PWRIOC_START K" "PWRIOC_SET_FAULT K \<noteq> PWRIOC_STOP K"
    "PWRIOC_SET_FAULT K \<noteq> PWRIOC_SET_MODE K" "PWRIOC_SET_FAULT K \<noteq> PWRIOC_SET_LIMITS K"
    "PWRIOC_SET_FAULT K \<noteq> PWRIOC_GET_STATE K" "PWRIOC_SET_FAULT K \<noteq> PWRIOC_GET_FAULT K"
    "PWRIOC_SET_FAULT K \<noteq> PWRIOC_CLEAN_FAULT K" "PWRIOC_SET_FAULT K \<noteq> PWRIOC_SET_PARAMS K"
    "PWRIOC_GET_FAULT K \<noteq> PWRIOC_START K" "PWRIOC_GET_FAULT K \<noteq> PWRIOC_STOP K"
    "PWRIOC_GET_FAULT K \<noteq> PWRIOC_SET_MODE K" "PWRIOC_GET_FAULT K \<noteq> PWRIOC_SET_LIMITS K"
    "PWRIOC_GET_FAULT K \<noteq> PWRIOC_GET_STATE K" "PWRIOC_GET_FAULT K \<noteq> PWRIOC_SET_FAULT K"
    "PWRIOC_GET_FAULT K \<noteq> PWRIOC_CLEAN_FAULT K" "PWRIOC_GET_FAULT K \<noteq> PWRIOC_SET_PARAMS K"
    "PWRIOC_CLEAN_FAULT K \<noteq> PWRIOC_START K" "PWRIOC_CLEAN_FAULT K \<noteq> PWRIOC_STOP K"
    "PWRIOC_CLEAN_FAULT K \<noteq> PWRIOC_SET_MODE K" "PWRIOC_CLEAN_FAULT K \<noteq> PWRIOC_SET_LIMITS K"
    "PWRIOC_CLEAN_FAULT K \<noteq> PWRIOC_GET_STATE K" "PWRIOC_CLEAN_FAULT K \<noteq> PWRIOC_SET_FAULT K"
    "PWRIOC_CLEAN_FAULT K \<noteq> PWRIOC_GET_FAULT K" "PWRIOC_CLEAN_FAULT K \<noteq> PWRIOC_SET_PARAMS K"
    "PWRIOC_SET_PARAMS K \<noteq> PWRIOC_START K" "PWRIOC_SET_PARAMS K \<noteq> PWRIOC_STOP K"
    "PWRIOC_SET_PARAMS K \<noteq> PWRIOC_SET_MODE K" "PWRIOC_SET_PARAMS K \<noteq> PWRIOC_SET_LIMITS K"
    "PWRIOC_SET_PARAMS K \<noteq> PWRIOC_GET_STATE K" "PWRIOC_SET_PARAMS K \<noteq> PWRIOC_SET_FAULT K"
    "PWRIOC_SET_PARAMS K \<noteq> PWRIOC_GET_FAULT K" "PWRIOC_SET_PARAMS K \<noteq> PWRIOC_CLEAN_FAULT K"
  using assms by (auto simp: labels_ok_def recognized_def)

subsection \<open>Open and close, path by path\<close>

text \<open>Whatever happens inside, the status that open returns is \<open>OK\<close>.\<close>

lemma powerled_open_status: "fst (powerled_open ops w dev) = OK"
  by (simp add: powerled_open_def split: prod.splits)

text \<open>The first open, with a setup that succeeds: the count becomes 1.\<close>

lemma powerled_open_first:
  assumes "ocount dev = 0" and "fst (ops_setup ops (lh dev)) = OK"
  shows "powerled_open ops WAIT_OK dev =
           (OK, dev\<lparr>ocount := 1, closesem := sem_post (sem_take (closesem dev)),
                    lh := snd (ops_setup ops (lh dev)), calls := calls dev @ [SETUP]\<rparr>)"
  using assms
  by (simp add: powerled_open_def powerled_open_ret_def call_lower_eq Let_def)

text \<open>
  An open of a device whose count is not 0: the semaphore is taken and given back and
  nothing else changes. The count is not stored.
\<close>

lemma powerled_open_not_first:
  assumes "ocount dev \<noteq> 0"
  shows "powerled_open ops WAIT_OK dev =
           (OK, dev\<lparr>closesem := sem_post (sem_take (closesem dev))\<rparr>)"
proof -
  have "ocount dev + 1 \<noteq> 1" using assms by simp
  then show ?thesis
    by (simp add: powerled_open_def powerled_open_ret_def Let_def)
qed

text \<open>A close of a device whose count is 0 or 1 takes the branch of the last closer.\<close>

lemma powerled_close_last:
  assumes "\<not> 1 < ocount dev"
  shows "powerled_close ops WAIT_OK dev =
           (OK, dev\<lparr>ocount := 0, closesem := sem_post (sem_take (closesem dev)),
                    lh := snd (ops_shutdown ops (lh dev)), calls := calls dev @ [SHUTDOWN]\<rparr>)"
  using assms
  by (simp add: powerled_close_def call_lower_eq Let_def)

text \<open>
  Open, open, close, close on any device with count 0 whose setup succeeds: the counts
  after the four calls are 1, 1, 0, 0, and the lower half sees setup, shutdown, shutdown.
\<close>

lemma open_open_close_close:
  assumes "ocount dev = 0" and "fst (ops_setup ops (lh dev)) = OK"
  shows "(let (r1, d1) = powerled_open ops WAIT_OK dev;
              (r2, d2) = powerled_open ops WAIT_OK d1;
              (r3, d3) = powerled_close ops WAIT_OK d2;
              (r4, d4) = powerled_close ops WAIT_OK d3
          in ocount d1 = 1 \<and> ocount d2 = 1 \<and> ocount d3 = 0 \<and> ocount d4 = 0 \<and>
             calls d2 = calls dev @ [SETUP] \<and>
             calls d3 = calls dev @ [SETUP, SHUTDOWN] \<and>
             calls d4 = calls dev @ [SETUP, SHUTDOWN, SHUTDOWN])"
  by (simp add: powerled_open_first [OF assms] powerled_open_not_first powerled_close_last)

subsection \<open>Two cases of the dispatcher\<close>

lemma SET_PARAMS_dispatch:
  assumes "labels_ok K"
  shows "powerled_ioctl K ops (PWRIOC_SET_PARAMS K) arg dev =
     (if params_lock (param (priv (lh dev))) \<or>
         float_lt (brightness (params_mem (lh dev) arg)) 0 \<or>
         float_gt (brightness (params_mem (lh dev) arg)) 100 \<or>
         float_lt (frequency (params_mem (lh dev) arg)) 0 \<or>
         float_lt (duty (params_mem (lh dev) arg)) 0 \<or>
         float_gt (duty (params_mem (lh dev) arg)) 100
      then (- EPERM, dev)
      else (fst (ops_params_set ops arg (lh dev)),
            dev\<lparr>lh := snd (ops_params_set ops arg (lh dev)),
                 calls := calls dev @ [PARAMS_SET arg]\<rparr>))"
  using labels_okD [OF assms]
  by (simp add: powerled_ioctl_def call_lower_eq Let_def)

lemma SET_LIMITS_dispatch:
  assumes "labels_ok K"
  shows "powerled_ioctl K ops (PWRIOC_SET_LIMITS K) arg dev =
     (if limits_lock (limits (priv (lh dev))) then (- EPERM, dev)
      else (fst (ops_limits_set ops arg (lh dev)),
            dev\<lparr>lh := snd (ops_limits_set ops arg (lh dev)),
                 calls := calls dev @ [LIMITS_SET arg]\<rparr>))"
  using labels_okD [OF assms]
  by (simp add: powerled_ioctl_def call_lower_eq Let_def)

section \<open>The claims\<close>

text \<open>
  C1. The claim: on a fresh session, open, open, close, close calls setup once, during
  the first open, and shutdown once, during the second close, and each successful open
  adds one to the count. The code at that input: a fresh device, every operation
  returning \<open>OK\<close>, every wait succeeding. All four calls return \<open>OK\<close>. The second open
  leaves the count at 1, since line 139 stores the new count only where it is 1. The
  first close therefore finds the count at 1 and shuts the hardware down while the second
  opener still holds the device, and the second close, at count 0, shuts it down again.
\<close>

theorem open_open_close_close_trace:
  "(let (r1, d1) = powerled_open (stub_ops OK) WAIT_OK fresh_dev;
        (r2, d2) = powerled_open (stub_ops OK) WAIT_OK d1;
        (r3, d3) = powerled_close (stub_ops OK) WAIT_OK d2;
        (r4, d4) = powerled_close (stub_ops OK) WAIT_OK d3
    in ([r1, r2, r3, r4], [ocount d1, ocount d2, ocount d3, ocount d4],
        calls d1, calls d2, calls d3, calls d4))
   = ([OK, OK, OK, OK], [1, 1, 0, 0],
      [SETUP], [SETUP], [SETUP, SHUTDOWN], [SETUP, SHUTDOWN, SHUTDOWN])"
  by (simp add: powerled_open_def powerled_open_ret_def powerled_close_def call_lower_def
      stub_ops_def fresh_dev_def OK_def EMFILE_def)

text \<open>
  C2. The claim: open returns the too-many-openers error when the 8-bit count would
  overflow, and a transient error when the wait for the semaphore fails; in both cases
  the status is not success. The code at two inputs: a device with count 255, and a
  fresh device with a wait that fails with \<open>errno\<close> 4. In both the local variable
  \<open>ret\<close> holds the error (\<open>- EMFILE\<close>, and \<open>- 4\<close>) and the count is not changed, as the
  claim says, but the function returns \<open>OK\<close>: line 149 is \<open>return OK\<close>.
\<close>

theorem open_returns_OK_on_overflow_and_failed_wait:
  "powerled_open_ret (stub_ops OK) WAIT_OK (fresh_dev\<lparr>ocount := 255\<rparr>)
     = (- EMFILE, fresh_dev\<lparr>ocount := 255\<rparr>) \<and>
   powerled_open (stub_ops OK) WAIT_OK (fresh_dev\<lparr>ocount := 255\<rparr>)
     = (OK, fresh_dev\<lparr>ocount := 255\<rparr>) \<and>
   powerled_open_ret (stub_ops OK) (WAIT_ERROR 4) fresh_dev = (- 4, fresh_dev) \<and>
   powerled_open (stub_ops OK) (WAIT_ERROR 4) fresh_dev = (OK, fresh_dev)"
  by (simp add: powerled_open_def powerled_open_ret_def fresh_dev_def OK_def EMFILE_def)

text \<open>
  C3. A first open (the count is 0 before the call) whose setup returns a status other
  than \<open>OK\<close>: open returns \<open>OK\<close> to the caller and the count is 0 after the call. Setup
  is the one call made into the lower half.
\<close>

theorem open_setup_failure:
  assumes "ocount dev = 0" and "fst (ops_setup ops (lh dev)) \<noteq> OK"
  shows "fst (powerled_open ops WAIT_OK dev) = OK \<and>
         ocount (snd (powerled_open ops WAIT_OK dev)) = 0 \<and>
         calls (snd (powerled_open ops WAIT_OK dev)) = calls dev @ [SETUP]"
  using assms
  by (simp add: powerled_open_def powerled_open_ret_def call_lower_eq Let_def)

theorem open_setup_failure_witness:
  "ocount fresh_dev = 0 \<and> fst (ops_setup (stub_ops (- 1)) (lh fresh_dev)) \<noteq> OK \<and>
   fst (powerled_open (stub_ops (- 1)) WAIT_OK fresh_dev) = OK \<and>
   ocount (snd (powerled_open (stub_ops (- 1)) WAIT_OK fresh_dev)) = 0 \<and>
   calls (snd (powerled_open (stub_ops (- 1)) WAIT_OK fresh_dev)) = [SETUP]"
proof -
  have a: "ocount fresh_dev = 0" by (simp add: fresh_dev_def)
  have b: "fst (ops_setup (stub_ops (- 1)) (lh fresh_dev)) \<noteq> OK"
    by (simp add: stub_ops_def OK_def)
  have c: "calls fresh_dev = []" by (simp add: fresh_dev_def)
  from open_setup_failure [OF a b] a b c show ?thesis by simp
qed

text \<open>
  C4. The claim: START is turned down with \<open>- EPERM\<close> whenever the current limit is not
  strictly positive. The code at an input with the limits locked, the mode continuous
  and NaN as the current limit: NaN is not above 0, yet the test \<open>current <= 0\<close> of
  line 221 is false as well, and the dispatcher calls \<open>start\<close> and returns its status.
\<close>

theorem ioctl_START_counterexample:
  "limits_lock (limits (priv (lh nan_dev))) = True \<and>
   \<not> float_gt (limits_current (limits (priv (lh nan_dev)))) 0 \<and>
   opmode (priv (lh nan_dev)) = POWERLED_OPMODE_CONTINUOUS example_h \<and>
   powerled_ioctl example_h (stub_ops 7) (PWRIOC_START example_h) 0 nan_dev
     = (7, nan_dev\<lparr>calls := [START]\<rparr>)"
  by (simp add: powerled_ioctl_def call_lower_def example_h_def stub_ops_def nan_dev_def)

text \<open>
  C4, as amended. START: if the limits are not locked, or the current limit is not
  strictly positive and is not NaN, or the mode is neither CONTINUOUS nor FLASH, the
  dispatcher returns \<open>- EPERM\<close> and the device is as before, no call made into the
  lower half. Otherwise, which includes a NaN current limit with the limits locked and
  a supported mode, it calls \<open>start\<close> once and returns the status of \<open>start\<close>.
\<close>

theorem ioctl_START:
  "powerled_ioctl K ops (PWRIOC_START K) arg dev =
     (if limits_lock (limits (priv (lh dev))) = False \<or>
         (\<not> float_gt (limits_current (limits (priv (lh dev)))) 0 \<and>
          limits_current (limits (priv (lh dev))) \<noteq> NaN) \<or>
         (opmode (priv (lh dev)) \<noteq> POWERLED_OPMODE_CONTINUOUS K \<and>
          opmode (priv (lh dev)) \<noteq> POWERLED_OPMODE_FLASH K)
      then (- EPERM, dev)
      else (fst (ops_start ops (lh dev)),
            dev\<lparr>lh := snd (ops_start ops (lh dev)), calls := calls dev @ [START]\<rparr>))"
  by (simp add: powerled_ioctl_def call_lower_eq Let_def float_le_iff)

theorem ioctl_START_witness:
  "powerled_ioctl example_h (stub_ops 7) (PWRIOC_START example_h) 0 armed_dev
     = (7, armed_dev\<lparr>calls := [START]\<rparr>) \<and>
   powerled_ioctl example_h (stub_ops 7) (PWRIOC_START example_h) 0 fresh_dev
     = (- EPERM, fresh_dev) \<and>
   powerled_ioctl example_h (stub_ops 7) (PWRIOC_START example_h) 0
       (armed_dev\<lparr>lh := (lh armed_dev)\<lparr>priv := (priv (lh armed_dev))
          \<lparr>limits := \<lparr>limits_lock = True, limits_current = Finite (- 2)\<rparr>\<rparr>\<rparr>\<rparr>)
     = (- EPERM, armed_dev\<lparr>lh := (lh armed_dev)\<lparr>priv := (priv (lh armed_dev))
          \<lparr>limits := \<lparr>limits_lock = True, limits_current = Finite (- 2)\<rparr>\<rparr>\<rparr>\<rparr>)"
  using ioctl_START [of example_h "stub_ops 7" 0 armed_dev]
    ioctl_START [of example_h "stub_ops 7" 0 fresh_dev]
    ioctl_START [of example_h "stub_ops 7" 0
       "armed_dev\<lparr>lh := (lh armed_dev)\<lparr>priv := (priv (lh armed_dev))
          \<lparr>limits := \<lparr>limits_lock = True, limits_current = Finite (- 2)\<rparr>\<rparr>\<rparr>\<rparr>"]
  by (simp add: example_h_def stub_ops_def armed_dev_def fresh_dev_def)

text \<open>
  C5. The claim: SET_PARAMS is turned down with \<open>- EPERM\<close> whenever the brightness is
  outside [0,100]. The code at an input with the parameters unlocked and a structure
  holding NaN as the brightness, frequency 1000 and duty 50: NaN is not in [0,100], yet
  every comparison of lines 358 and 359 is false, and the dispatcher calls
  \<open>params_set\<close> and returns its status.
\<close>

theorem ioctl_SET_PARAMS_counterexample:
  "params_lock (param (priv (lh nan_dev))) = False \<and>
   \<not> float_in (brightness (params_mem (lh nan_dev) 4)) 0 100 \<and>
   powerled_ioctl example_h (stub_ops 7) (PWRIOC_SET_PARAMS example_h) 4 nan_dev
     = (7, nan_dev\<lparr>calls := [PARAMS_SET 4]\<rparr>)"
  by (simp add: powerled_ioctl_def call_lower_def example_h_def stub_ops_def nan_dev_def
      zero_params_def)

text \<open>
  C5, as amended. SET_PARAMS, the structure being the one the argument points to: if
  the parameters are locked, or the brightness is outside [0,100] and is not NaN, or
  the frequency is negative, or the duty is outside [0,100] and is not NaN, the
  dispatcher returns \<open>- EPERM\<close> and the device is as before, no call made into the
  lower half. Otherwise, which includes a NaN among the three values when nothing else
  is wrong, it calls \<open>params_set\<close> and returns its status. A brightness of 101 is
  rejected. With the parameters unlocked, brightness 50, frequency 1000 and duty 50
  are handed to \<open>params_set\<close>.
\<close>

theorem ioctl_SET_PARAMS:
  assumes "labels_ok K"
  shows
    "powerled_ioctl K ops (PWRIOC_SET_PARAMS K) arg dev =
       (if params_lock (param (priv (lh dev))) \<or>
           (\<not> float_in (brightness (params_mem (lh dev) arg)) 0 100 \<and>
            brightness (params_mem (lh dev) arg) \<noteq> NaN) \<or>
           float_lt (frequency (params_mem (lh dev) arg)) 0 \<or>
           (\<not> float_in (duty (params_mem (lh dev) arg)) 0 100 \<and>
            duty (params_mem (lh dev) arg) \<noteq> NaN)
        then (- EPERM, dev)
        else (fst (ops_params_set ops arg (lh dev)),
              dev\<lparr>lh := snd (ops_params_set ops arg (lh dev)),
                   calls := calls dev @ [PARAMS_SET arg]\<rparr>)) \<and>
     (brightness (params_mem (lh dev) arg) = Finite 101
      \<longrightarrow> powerled_ioctl K ops (PWRIOC_SET_PARAMS K) arg dev = (- EPERM, dev)) \<and>
     (\<not> params_lock (param (priv (lh dev))) \<and>
      brightness (params_mem (lh dev) arg) = Finite 50 \<and>
      frequency (params_mem (lh dev) arg) = Finite 1000 \<and>
      duty (params_mem (lh dev) arg) = Finite 50
      \<longrightarrow> powerled_ioctl K ops (PWRIOC_SET_PARAMS K) arg dev =
            (fst (ops_params_set ops arg (lh dev)),
             dev\<lparr>lh := snd (ops_params_set ops arg (lh dev)),
                  calls := calls dev @ [PARAMS_SET arg]\<rparr>))"
proof -
  have "float_lt (brightness (params_mem (lh dev) arg)) 0 \<or>
        float_gt (brightness (params_mem (lh dev) arg)) 100 \<longleftrightarrow>
        \<not> float_in (brightness (params_mem (lh dev) arg)) 0 100 \<and>
        brightness (params_mem (lh dev) arg) \<noteq> NaN"
    by (rule float_outside_iff)
  moreover
  have "float_lt (duty (params_mem (lh dev) arg)) 0 \<or>
        float_gt (duty (params_mem (lh dev) arg)) 100 \<longleftrightarrow>
        \<not> float_in (duty (params_mem (lh dev) arg)) 0 100 \<and>
        duty (params_mem (lh dev) arg) \<noteq> NaN"
    by (rule float_outside_iff)
  ultimately show ?thesis
    by (auto simp: SET_PARAMS_dispatch [OF assms])
qed

theorem ioctl_SET_PARAMS_witness:
  "labels_ok example_h \<and>
   brightness (params_mem (lh armed_dev) 0) = Finite 101 \<and>
   powerled_ioctl example_h (stub_ops 7) (PWRIOC_SET_PARAMS example_h) 0 armed_dev
     = (- EPERM, armed_dev) \<and>
   params_mem (lh armed_dev) 4 =
     \<lparr>params_lock = False, brightness = Finite 50, frequency = Finite 1000,
      duty = Finite 50\<rparr> \<and>
   powerled_ioctl example_h (stub_ops 7) (PWRIOC_SET_PARAMS example_h) 4 armed_dev
     = (7, armed_dev\<lparr>calls := [PARAMS_SET 4]\<rparr>)"
  using ioctl_SET_PARAMS [OF labels_ok_example_h, of "stub_ops 7" 0 armed_dev]
    ioctl_SET_PARAMS [OF labels_ok_example_h, of "stub_ops 7" 4 armed_dev]
    labels_ok_example_h
  by (simp add: stub_ops_def armed_dev_def zero_params_def)

text \<open>
  C6. The claim: SET_LIMITS returns \<open>- EPERM\<close> if and only if the limits are locked.
  The code at an input with the limits unlocked and a \<open>limits_set\<close> that returns
  \<open>- EPERM\<close> itself: the dispatcher calls \<open>limits_set\<close> and returns its \<open>- EPERM\<close>.
\<close>

theorem ioctl_SET_LIMITS_counterexample:
  "fst (powerled_ioctl example_h (stub_ops (- EPERM)) (PWRIOC_SET_LIMITS example_h) 0 fresh_dev)
     = - EPERM \<and>
   limits_lock (limits (priv (lh fresh_dev))) = False \<and>
   calls (snd (powerled_ioctl example_h (stub_ops (- EPERM)) (PWRIOC_SET_LIMITS example_h) 0
     fresh_dev)) = [LIMITS_SET 0]"
  by (simp add: powerled_ioctl_def call_lower_def example_h_def stub_ops_def fresh_dev_def)

text \<open>
  C6, as amended. SET_LIMITS with the limits locked: the dispatcher returns \<open>- EPERM\<close>
  and the device is as before. With the limits unlocked: it calls \<open>limits_set\<close> with
  the argument and returns the status of \<open>limits_set\<close>, whatever it is. So the
  dispatcher answers without a call into the lower half if and only if the limits are
  locked.
\<close>

theorem ioctl_SET_LIMITS:
  assumes "labels_ok K"
  shows
    "powerled_ioctl K ops (PWRIOC_SET_LIMITS K) arg dev =
       (if limits_lock (limits (priv (lh dev))) then (- EPERM, dev)
        else (fst (ops_limits_set ops arg (lh dev)),
              dev\<lparr>lh := snd (ops_limits_set ops arg (lh dev)),
                   calls := calls dev @ [LIMITS_SET arg]\<rparr>)) \<and>
     (calls (snd (powerled_ioctl K ops (PWRIOC_SET_LIMITS K) arg dev)) = calls dev
        \<longleftrightarrow> limits_lock (limits (priv (lh dev))))"
  by (simp add: SET_LIMITS_dispatch [OF assms])

theorem ioctl_SET_LIMITS_witness:
  "labels_ok example_h \<and>
   powerled_ioctl example_h (stub_ops 7) (PWRIOC_SET_LIMITS example_h) 0 armed_dev
     = (- EPERM, armed_dev) \<and>
   powerled_ioctl example_h (stub_ops 7) (PWRIOC_SET_LIMITS example_h) 0 fresh_dev
     = (7, fresh_dev\<lparr>calls := [LIMITS_SET 0]\<rparr>)"
  using ioctl_SET_LIMITS [OF labels_ok_example_h, of "stub_ops 7" 0 armed_dev]
    ioctl_SET_LIMITS [OF labels_ok_example_h, of "stub_ops 7" 0 fresh_dev]
    labels_ok_example_h
  by (simp add: stub_ops_def armed_dev_def fresh_dev_def)

text \<open>
  C7. A command that is none of the nine recognized ones: the dispatcher calls the
  generic \<open>ioctl\<close> of the lower half with the same command and the same argument, once,
  and returns its status.
\<close>

theorem ioctl_unrecognized:
  assumes "cmd \<notin> set (recognized K)"
  shows "powerled_ioctl K ops cmd arg dev =
           (fst (ops_ioctl ops cmd arg (lh dev)),
            dev\<lparr>lh := snd (ops_ioctl ops cmd arg (lh dev)),
                 calls := calls dev @ [IOCTL cmd arg]\<rparr>)"
  using assms
  by (simp add: powerled_ioctl_def recognized_def call_lower_eq Let_def)

theorem ioctl_unrecognized_witness:
  "42 \<notin> set (recognized example_h) \<and>
   powerled_ioctl example_h (stub_ops (- 25)) 42 4096 fresh_dev
     = (- 25, fresh_dev\<lparr>calls := [IOCTL 42 4096]\<rparr>)"
proof -
  have a: "42 \<notin> set (recognized example_h)"
    by (simp add: recognized_def example_h_def)
  from ioctl_unrecognized [OF a, of "stub_ops (- 25)" 4096 fresh_dev] a show ?thesis
    by (simp add: stub_ops_def fresh_dev_def)
qed

text \<open>
  C8. The claim: whenever a precondition of the dispatcher is violated, an out-of-range
  value for SET_PARAMS among them, the dispatcher returns \<open>- EPERM\<close> without a call
  into the lower half. The code at an input with the parameters unlocked and NaN as the
  brightness: the precondition of the spec's table is violated, and the dispatcher
  calls \<open>params_set\<close>.
\<close>

theorem ioctl_precondition_counterexample:
  "precondition_violated example_h (PWRIOC_SET_PARAMS example_h) 4 nan_dev \<and>
   powerled_ioctl example_h (stub_ops 7) (PWRIOC_SET_PARAMS example_h) 4 nan_dev
     = (7, nan_dev\<lparr>calls := [PARAMS_SET 4]\<rparr>)"
  by (simp add: precondition_violated_def powerled_ioctl_def call_lower_def example_h_def
      stub_ops_def nan_dev_def zero_params_def)

text \<open>
  C8, as amended. Every command, recognized or not. The dispatcher turns a command down
  by the tests of the source: limits not locked, current limit at most 0 or unsupported
  mode for START; limits locked for SET_LIMITS; parameters locked, brightness or duty
  below 0 or above 100, or frequency below 0 for SET_PARAMS. What it turns down gets
  \<open>- EPERM\<close> and the device is as before: no call into the lower half, no change of the
  session or of the lower half's state. Every other command makes the one call that the
  spec's table names, and the status returned is the status of that call, success or
  not. What is turned down violates a precondition of the spec's table, and a command
  that violates one is turned down unless a float that the tests read is NaN.
\<close>

theorem ioctl_rejects_or_delegates:
  assumes "labels_ok K"
  shows
    "powerled_ioctl K ops cmd arg dev =
       (if dispatcher_rejects K cmd arg dev then (- EPERM, dev)
        else (fst (run_call ops (spec_delegate K cmd arg) (lh dev)),
              dev\<lparr>lh := snd (run_call ops (spec_delegate K cmd arg) (lh dev)),
                   calls := calls dev @ [spec_delegate K cmd arg]\<rparr>)) \<and>
     (dispatcher_rejects K cmd arg dev \<longrightarrow> precondition_violated K cmd arg dev) \<and>
     (precondition_violated K cmd arg dev \<and> \<not> reads_nan K cmd arg dev
        \<longrightarrow> dispatcher_rejects K cmd arg dev)"
proof -
  note ne = labels_okD [OF assms]
  note defs = powerled_ioctl_def dispatcher_rejects_def spec_delegate_def call_lower_eq
    Let_def
  consider "cmd = PWRIOC_START K" | "cmd = PWRIOC_STOP K" | "cmd = PWRIOC_SET_MODE K"
    | "cmd = PWRIOC_SET_LIMITS K" | "cmd = PWRIOC_GET_STATE K" | "cmd = PWRIOC_SET_FAULT K"
    | "cmd = PWRIOC_GET_FAULT K" | "cmd = PWRIOC_CLEAN_FAULT K" | "cmd = PWRIOC_SET_PARAMS K"
    | "cmd \<notin> set (recognized K)"
    by (auto simp: recognized_def)
  then have eq: "powerled_ioctl K ops cmd arg dev =
       (if dispatcher_rejects K cmd arg dev then (- EPERM, dev)
        else (fst (run_call ops (spec_delegate K cmd arg) (lh dev)),
              dev\<lparr>lh := snd (run_call ops (spec_delegate K cmd arg) (lh dev)),
                   calls := calls dev @ [spec_delegate K cmd arg]\<rparr>))"
  proof cases
    case 1
    then show ?thesis by (simp add: defs ne)
  next
    case 2
    then show ?thesis by (simp add: defs ne)
  next
    case 3
    then show ?thesis by (simp add: defs ne)
  next
    case 4
    then show ?thesis by (simp add: defs ne)
  next
    case 5
    then show ?thesis by (simp add: defs ne)
  next
    case 6
    then show ?thesis by (simp add: defs ne)
  next
    case 7
    then show ?thesis by (simp add: defs ne)
  next
    case 8
    then show ?thesis by (simp add: defs ne)
  next
    case 9
    then show ?thesis by (simp add: defs ne)
  next
    case 10
    then show ?thesis by (simp add: defs recognized_def)
  qed
  note fl =
    float_le_iff [of "limits_current (limits (priv (lh dev)))" 0]
    float_lt_iff [of "frequency (params_mem (lh dev) arg)" 0]
    float_outside_iff [of "brightness (params_mem (lh dev) arg)" 0 100]
    float_outside_iff [of "duty (params_mem (lh dev) arg)" 0 100]
  have sound: "dispatcher_rejects K cmd arg dev \<longrightarrow> precondition_violated K cmd arg dev"
    unfolding dispatcher_rejects_def precondition_violated_def Let_def
    using fl by auto
  have complete: "precondition_violated K cmd arg dev \<and> \<not> reads_nan K cmd arg dev
        \<longrightarrow> dispatcher_rejects K cmd arg dev"
    unfolding dispatcher_rejects_def precondition_violated_def reads_nan_def Let_def
    using fl by auto
  from eq sound complete show ?thesis by blast
qed

theorem ioctl_rejects_or_delegates_witness:
  "labels_ok example_h \<and>
   dispatcher_rejects example_h (PWRIOC_START example_h) 0 fresh_dev \<and>
   powerled_ioctl example_h (stub_ops (- 5)) (PWRIOC_START example_h) 0 fresh_dev
     = (- EPERM, fresh_dev) \<and>
   \<not> dispatcher_rejects example_h (PWRIOC_STOP example_h) 0 fresh_dev \<and>
   powerled_ioctl example_h (stub_ops (- 5)) (PWRIOC_STOP example_h) 0 fresh_dev
     = (- 5, fresh_dev\<lparr>calls := [STOP]\<rparr>) \<and>
   precondition_violated example_h (PWRIOC_SET_PARAMS example_h) 0 armed_dev \<and>
   \<not> reads_nan example_h (PWRIOC_SET_PARAMS example_h) 0 armed_dev \<and>
   dispatcher_rejects example_h (PWRIOC_SET_PARAMS example_h) 0 armed_dev"
proof -
  note t1 = ioctl_rejects_or_delegates [OF labels_ok_example_h, of "stub_ops (- 5)"
      "PWRIOC_START example_h" 0 fresh_dev]
  note t2 = ioctl_rejects_or_delegates [OF labels_ok_example_h, of "stub_ops (- 5)"
      "PWRIOC_STOP example_h" 0 fresh_dev]
  note t3 = ioctl_rejects_or_delegates [OF labels_ok_example_h, of "stub_ops (- 5)"
      "PWRIOC_SET_PARAMS example_h" 0 armed_dev]
  have a: "dispatcher_rejects example_h (PWRIOC_START example_h) 0 fresh_dev"
    by (simp add: dispatcher_rejects_def example_h_def fresh_dev_def)
  have b: "\<not> dispatcher_rejects example_h (PWRIOC_STOP example_h) 0 fresh_dev"
    by (simp add: dispatcher_rejects_def example_h_def)
  have c: "precondition_violated example_h (PWRIOC_SET_PARAMS example_h) 0 armed_dev"
    by (simp add: precondition_violated_def example_h_def armed_dev_def zero_params_def)
  have d: "\<not> reads_nan example_h (PWRIOC_SET_PARAMS example_h) 0 armed_dev"
    by (simp add: reads_nan_def example_h_def armed_dev_def zero_params_def)
  have e: "powerled_ioctl example_h (stub_ops (- 5)) (PWRIOC_START example_h) 0 fresh_dev
     = (- EPERM, fresh_dev)"
    using t1 [THEN conjunct1] a by simp
  have f: "powerled_ioctl example_h (stub_ops (- 5)) (PWRIOC_STOP example_h) 0 fresh_dev
     = (- 5, fresh_dev\<lparr>calls := [STOP]\<rparr>)"
    using t2 [THEN conjunct1] b
    by (simp add: spec_delegate_def example_h_def stub_ops_def fresh_dev_def)
  have g: "dispatcher_rejects example_h (PWRIOC_SET_PARAMS example_h) 0 armed_dev"
    using t3 [THEN conjunct2, THEN conjunct2] c d by blast
  from labels_ok_example_h a b c d e f g show ?thesis by blast
qed

text \<open>
  C9. Registration sets the open count to 0, initialises the semaphore with the count 1
  and stores the lower-level interface in the device. It returns the status of the
  driver registration; if that status is negative, the semaphore that was initialised is
  destroyed before the return.
\<close>

theorem powerled_register_init:
  "powerled_register r path dev l =
     (r, dev\<lparr>ocount := 0,
             closesem := (if r < 0 then sem_destroy (SEM 1) else SEM 1),
             lh := (lh dev)\<lparr>lower := l\<rparr>\<rparr>)"
  by (simp add: powerled_register_def nxsem_init_def Let_def)

theorem powerled_register_init_witness:
  "powerled_register 0 ''/dev/powerled0'' (armed_dev\<lparr>closesem := SEM_UNINIT\<rparr>) ()
     = (0, fresh_dev\<lparr>lh := lh armed_dev\<rparr>) \<and>
   powerled_register (- 17) ''/dev/powerled0'' (armed_dev\<lparr>closesem := SEM_UNINIT\<rparr>) ()
     = (- 17, fresh_dev\<lparr>lh := lh armed_dev, closesem := SEM_DESTROYED\<rparr>)"
  using powerled_register_init [of 0 "''/dev/powerled0''"
      "armed_dev\<lparr>closesem := SEM_UNINIT\<rparr>" "()"]
    powerled_register_init [of "- 17" "''/dev/powerled0''"
      "armed_dev\<lparr>closesem := SEM_UNINIT\<rparr>" "()"]
  by (simp add: armed_dev_def fresh_dev_def sem_destroy_def)

text \<open>
  C10. A close that has taken the semaphore while the count is 0: the branch of the
  last closer runs. The count is set to 0 again and \<open>shutdown\<close> is called, once. A
  second such close calls \<open>shutdown\<close> a second time. The witness is a device whose one
  open ran a setup that failed: the count stayed 0, so the close that follows shuts
  down hardware that no setup has brought up, and the next close does so again.
\<close>

theorem close_at_count_zero:
  assumes "ocount dev = 0"
  shows "powerled_close ops WAIT_OK dev =
           (OK, dev\<lparr>ocount := 0, closesem := sem_post (sem_take (closesem dev)),
                    lh := snd (ops_shutdown ops (lh dev)),
                    calls := calls dev @ [SHUTDOWN]\<rparr>) \<and>
         ocount (snd (powerled_close ops WAIT_OK dev)) = 0 \<and>
         calls (snd (powerled_close ops WAIT_OK (snd (powerled_close ops WAIT_OK dev))))
           = calls dev @ [SHUTDOWN, SHUTDOWN]"
  using assms by (simp add: powerled_close_last)

theorem close_at_count_zero_witness:
  "ocount (snd (powerled_open (stub_ops (- 1)) WAIT_OK fresh_dev)) = 0 \<and>
   calls (snd (powerled_close (stub_ops (- 1)) WAIT_OK
            (snd (powerled_open (stub_ops (- 1)) WAIT_OK fresh_dev)))) = [SETUP, SHUTDOWN] \<and>
   calls (snd (powerled_close (stub_ops (- 1)) WAIT_OK
            (snd (powerled_close (stub_ops (- 1)) WAIT_OK
              (snd (powerled_open (stub_ops (- 1)) WAIT_OK fresh_dev))))))
     = [SETUP, SHUTDOWN, SHUTDOWN]"
proof -
  let ?d = "snd (powerled_open (stub_ops (- 1)) WAIT_OK fresh_dev)"
  have a: "ocount ?d = 0"
    by (simp add: powerled_open_def powerled_open_ret_def call_lower_def stub_ops_def
        fresh_dev_def OK_def EMFILE_def)
  have c: "calls ?d = [SETUP]"
    by (simp add: powerled_open_def powerled_open_ret_def call_lower_def stub_ops_def
        fresh_dev_def OK_def EMFILE_def)
  note t = close_at_count_zero [OF a, of "stub_ops (- 1)"]
  from t [THEN conjunct1] c
  have "calls (snd (powerled_close (stub_ops (- 1)) WAIT_OK ?d)) = [SETUP, SHUTDOWN]"
    by simp
  moreover from t [THEN conjunct2, THEN conjunct2] c
  have "calls (snd (powerled_close (stub_ops (- 1)) WAIT_OK
          (snd (powerled_close (stub_ops (- 1)) WAIT_OK ?d)))) = [SETUP, SHUTDOWN, SHUTDOWN]"
    by simp
  ultimately show ?thesis using a by blast
qed

end
